theory Spec2Isabelle
  imports Complex_Main "HOL-Library.AList"
begin

section \<open>gbdxtools.images.meta: deferred, geo-referenced images\<close>

text \<open>
  A shallow embedding of \<^verbatim>\<open>src/gbdxtools/images/meta.py\<close>. Coordinates and ground
  sample distances are Python floats in the source; a finite float is a rational
  number, and the model takes its values in \<open>rat\<close>. The transform class of an image is
  not in the source and is modelled in exact arithmetic; the arithmetic of \<open>warp\<close>,
  which decides how many tiles there are, rounds, and is an argument of the model
  (see \<open>arith\<close> below). Exceptions are values of the type \<open>error\<close>; every operation
  that can raise returns \<open>error + 'a\<close>.
\<close>

subsection \<open>Errors\<close>

text \<open>
  An assertion carries its message. The message of the containment assertion is a
  format string with two formatted tuples, kept as the template and its two arguments.
\<close>

datatype msg = Msg string | MsgFmt string "rat list" "rat list"

datatype error =
    AssertionError msg
  | TypeError
  | ValueError
  | IndexError
  | KeyError
  | ZeroDivisionError
  | TransformNotInvertibleError

subsection \<open>Geometries\<close>

text \<open>
  A shapely geometry is modelled by its coordinate sequence. \<open>bounds_of\<close> is the
  \<^verbatim>\<open>.bounds\<close> property: the tuple \<^verbatim>\<open>(minx, miny, maxx, maxy)\<close>, and the empty tuple
  for an empty geometry. \<open>box_star\<close> is the call \<^verbatim>\<open>box(*args)\<close> of
  \<^verbatim>\<open>shapely.geometry.box(minx, miny, maxx, maxy, ccw=True)\<close>: four or five positional
  arguments, a TypeError otherwise. \<open>contains\<close> is \<^verbatim>\<open>container.contains(g)\<close> for the
  axis-aligned rectangles this program uses as containers: a non-empty geometry all
  of whose coordinates lie in the rectangle.
\<close>

type_synonym point = "rat \<times> rat"
type_synonym geometry = "point list"

fun bounds_of :: "geometry \<Rightarrow> rat list" where
  "bounds_of [] = []"
| "bounds_of (p # ps) =
     [fold min (map fst ps) (fst p), fold min (map snd ps) (snd p),
      fold max (map fst ps) (fst p), fold max (map snd ps) (snd p)]"

definition box :: "rat \<Rightarrow> rat \<Rightarrow> rat \<Rightarrow> rat \<Rightarrow> bool \<Rightarrow> geometry" where
  "box minx miny maxx maxy ccw =
     (let coords = [(maxx, miny), (maxx, maxy), (minx, maxy), (minx, miny)]
      in if ccw then coords else rev coords)"

fun box_star :: "rat list \<Rightarrow> error + geometry" where
  "box_star [minx, miny, maxx, maxy] = Inr (box minx miny maxx maxy True)"
| "box_star [minx, miny, maxx, maxy, ccw] = Inr (box minx miny maxx maxy (ccw \<noteq> 0))"
| "box_star args = Inl TypeError"

definition in_bounds :: "rat list \<Rightarrow> point \<Rightarrow> bool" where
  "in_bounds b p =
     (case b of
        [minx, miny, maxx, maxy] \<Rightarrow>
          minx \<le> fst p \<and> fst p \<le> maxx \<and> miny \<le> snd p \<and> snd p \<le> maxy
      | _ \<Rightarrow> False)"

definition contains :: "geometry \<Rightarrow> geometry \<Rightarrow> bool" where
  "contains container g \<longleftrightarrow> g \<noteq> [] \<and> list_all (in_bounds (bounds_of container)) g"

subsection \<open>Affine transforms\<close>

text \<open>
  The six coefficients of \<^verbatim>\<open>affine.Affine\<close>, with the library's names. \<open>from_gdal\<close>,
  \<open>affine_invert\<close> (the operator \<^verbatim>\<open>~\<close>) and \<open>affine_apply\<close> (the operator \<^verbatim>\<open>*\<close> on
  a coordinate pair) follow the library's formulas, here in exact arithmetic;
  inverting a degenerate transform raises.
\<close>

datatype affine = Affine (sa: rat) (sb: rat) (sc: rat) (sd: rat) (se: rat) (sf: rat)

definition from_gdal :: "rat \<Rightarrow> rat \<Rightarrow> rat \<Rightarrow> rat \<Rightarrow> rat \<Rightarrow> rat \<Rightarrow> affine" where
  "from_gdal c a b f d e = Affine a b c d e f"

definition determinant :: "affine \<Rightarrow> rat" where
  "determinant t = sa t * se t - sb t * sd t"

definition affine_invert :: "affine \<Rightarrow> error + affine" where
  "affine_invert t =
     (if determinant t = 0 then Inl TransformNotInvertibleError
      else
        let idet = 1 / determinant t;
            ra = se t * idet;
            rb = - sb t * idet;
            rd = - sd t * idet;
            re = sa t * idet
        in Inr (Affine ra rb (- sc t * ra - sf t * rb) rd re (- sc t * rd - sf t * re)))"

definition affine_apply :: "affine \<Rightarrow> point \<Rightarrow> point" where
  "affine_apply t v =
     (fst v * sa t + snd v * sb t + sc t, fst v * sd t + snd v * se t + sf t)"

definition translation :: "rat \<Rightarrow> rat \<Rightarrow> affine" where
  "translation xoff yoff = Affine 1 0 xoff 0 1 yoff"

definition affine_mul :: "affine \<Rightarrow> affine \<Rightarrow> affine" where
  "affine_mul s t =
     Affine (sa s * sa t + sb s * sd t) (sa s * sb t + sb s * se t)
            (sa s * sc t + sb s * sf t + sc s)
            (sd s * sa t + se s * sd t) (sd s * sb t + se s * se t)
            (sd s * sc t + se s * sf t + sf s)"

text \<open>
  Python's \<^verbatim>\<open>int(x)\<close> on a float truncates toward zero.
\<close>

definition py_int :: "rat \<Rightarrow> int" where
  "py_int q = (if 0 \<le> q then \<lfloor>q\<rfloor> else \<lceil>q\<rceil>)"

subsection \<open>Floating-point arithmetic\<close>

text \<open>
  The sum, difference, product and quotient of two floats are the exact results
  rounded, and an int that meets a float is converted first. What the rounding does
  is left open: the four operations and the conversion are the fields of \<open>arith\<close>,
  and a statement proved for every \<open>arith\<close> holds of the doubles of the source
  (infinities and NaN apart). Negation, comparison and \<^verbatim>\<open>int(x)\<close> are exact on floats.
  \<open>exact\<close> is the arithmetic that never rounds; the doubles agree with it wherever
  every operand and result is a small whole number, as in the evaluations below.
\<close>

record arith =
  fadd :: "rat \<Rightarrow> rat \<Rightarrow> rat"
  fsub :: "rat \<Rightarrow> rat \<Rightarrow> rat"
  fmul :: "rat \<Rightarrow> rat \<Rightarrow> rat"
  fdiv :: "rat \<Rightarrow> rat \<Rightarrow> rat"
  fconv :: "int \<Rightarrow> rat"

definition exact :: arith where
  "exact = \<lparr>fadd = (+), fsub = (-), fmul = (*), fdiv = (/), fconv = of_int\<rparr>"

text \<open>
  The operators \<^verbatim>\<open>~\<close> and \<^verbatim>\<open>*\<close> of \<^verbatim>\<open>affine.Affine\<close> as \<open>warp\<close> applies them to
  floats, operation by operation in the library's order:
  \<^verbatim>\<open>idet = 1.0 / (sa * se - sb * sd)\<close>, \<^verbatim>\<open>ra = se * idet\<close>, \<^verbatim>\<open>rb = -sb * idet\<close>,
  \<^verbatim>\<open>rd = -sd * idet\<close>, \<^verbatim>\<open>re = sa * idet\<close>, the offsets \<^verbatim>\<open>-sc * ra - sf * rb\<close> and
  \<^verbatim>\<open>-sc * rd - sf * re\<close>; and \<^verbatim>\<open>(vx * sa + vy * sb + sc, vx * sd + vy * se + sf)\<close>.
\<close>

definition fl_determinant :: "arith \<Rightarrow> affine \<Rightarrow> rat" where
  "fl_determinant ar t = fsub ar (fmul ar (sa t) (se t)) (fmul ar (sb t) (sd t))"

definition fl_invert :: "arith \<Rightarrow> affine \<Rightarrow> error + affine" where
  "fl_invert ar t =
     (if fl_determinant ar t = 0 then Inl TransformNotInvertibleError
      else
        let idet = fdiv ar 1 (fl_determinant ar t);
            ra = fmul ar (se t) idet;
            rb = fmul ar (- sb t) idet;
            rd = fmul ar (- sd t) idet;
            re = fmul ar (sa t) idet
        in Inr (Affine ra rb (fsub ar (fmul ar (- sc t) ra) (fmul ar (sf t) rb))
                       rd re (fsub ar (fmul ar (- sc t) rd) (fmul ar (sf t) re))))"

definition fl_apply :: "arith \<Rightarrow> affine \<Rightarrow> point \<Rightarrow> point" where
  "fl_apply ar t v =
     (fadd ar (fadd ar (fmul ar (fst v) (sa t)) (fmul ar (snd v) (sb t))) (sc t),
      fadd ar (fadd ar (fmul ar (fst v) (sd t)) (fmul ar (snd v) (se t))) (sf t))"

subsection \<open>The geo transform of an image\<close>

text \<open>
  Modelled from the spec: the transform class behind \<^verbatim>\<open>__geo_transform__\<close>
  (\<^verbatim>\<open>gbdxtools.ipe.util\<close>) is not in \<^verbatim>\<open>src/\<close>. The spec gives it an affine
  decomposition (\<^verbatim>\<open>_affine\<close>), a projection identifier that may be absent
  (\<^verbatim>\<open>proj\<close>), and a forward and a reverse conversion between pixel and geographic
  coordinates.
\<close>

record gtransform =
  affine_of :: affine
  proj_of :: "string option"

text \<open>
  Modelled from the spec: \<^verbatim>\<open>rev\<close>, the reverse (geographic to pixel) conversion of the
  transform class, missing from \<^verbatim>\<open>src/\<close>: the inverse of the affine decomposition
  applied to the point.
\<close>

definition rev_point :: "gtransform \<Rightarrow> point \<Rightarrow> error + point" where
  "rev_point t p =
     (case affine_invert (affine_of t) of
        Inl e \<Rightarrow> Inl e
      | Inr ia \<Rightarrow> Inr (affine_apply ia p))"

text \<open>
  Modelled from the spec: the operator \<^verbatim>\<open>+\<close> of the transform class with a pixel
  offset, missing from \<^verbatim>\<open>src/\<close>. The spec: the result is "the original transform
  translated by the window's pixel offset (translation composition, not
  reprojection)", so pixel \<open>(0, 0)\<close> of the result is pixel \<open>(xoff, yoff)\<close> of the
  original.
\<close>

definition transform_add :: "gtransform \<Rightarrow> point \<Rightarrow> gtransform" where
  "transform_add t off =
     t\<lparr>affine_of := affine_mul (affine_of t) (translation (fst off) (snd off))\<rparr>"

text \<open>
  \<^verbatim>\<open>shapely.ops.transform(fn, g)\<close> applies \<open>fn\<close> to every coordinate of \<open>g\<close>; the first
  coordinate on which \<open>fn\<close> raises ends the call.
\<close>

fun ops_transform :: "(point \<Rightarrow> error + point) \<Rightarrow> geometry \<Rightarrow> error + geometry" where
  "ops_transform fn [] = Inr []"
| "ops_transform fn (p # ps) =
     (case fn p of
        Inl e \<Rightarrow> Inl e
      | Inr q \<Rightarrow> (case ops_transform fn ps of Inl e \<Rightarrow> Inl e | Inr qs \<Rightarrow> Inr (q # qs)))"

subsection \<open>Deferred arrays and their metadata\<close>

text \<open>
  A key of the task graph is \<^verbatim>\<open>(name, band, row, col)\<close>; a warp task is the tuple
  \<^verbatim>\<open>(warp_geometry, geometry, dem, rpcs, proj, gsd)\<close> without its first component,
  which is always the same bound method. The elevation \<open>dem\<close> is a number (its
  default is 0); \<open>rpcs\<close> and \<open>proj\<close> are passed through unread. The graph is a Python
  dict: an association list with one entry per key, in insertion order.
\<close>

type_synonym key = "string \<times> int \<times> int \<times> int"

record task =
  task_geometry :: geometry
  task_dem :: rat
  task_rpcs :: "string option"
  task_proj :: "string option"
  task_gsd :: rat

type_synonym graph = "(key \<times> task) list"

text \<open>
  \<open>daskmeta\<close> is an instance of a concrete subclass of \<^verbatim>\<open>DaskMeta\<close>: what reading
  each of its five properties gives, a value or the error the property raises.
\<close>

record daskmeta =
  dm_dask :: "error + graph"
  dm_name :: "error + string"
  dm_chunks :: "error + int list"
  dm_dtype :: "error + string"
  dm_shape :: "error + int list"

text \<open>
  \<^verbatim>\<open>DaskMetaWrapper\<close> wraps a dictionary; each property is the lookup of its key,
  \<^verbatim>\<open>self.da["dask"]\<close> and so on, and a missing key raises KeyError. The dictionary is
  modelled by its entries under the five keys, \<open>None\<close> for a missing key.
\<close>

record daskdict =
  da_dask :: "graph option"
  da_name :: "string option"
  da_chunks :: "int list option"
  da_dtype :: "string option"
  da_shape :: "int list option"

definition dict_item :: "'v option \<Rightarrow> error + 'v" where
  "dict_item entry = (case entry of None \<Rightarrow> Inl KeyError | Some v \<Rightarrow> Inr v)"

definition DaskMetaWrapper :: "daskdict \<Rightarrow> daskmeta" where
  "DaskMetaWrapper da =
     \<lparr>dm_dask = dict_item (da_dask da), dm_name = dict_item (da_name da),
      dm_chunks = dict_item (da_chunks da), dm_dtype = dict_item (da_dtype da),
      dm_shape = dict_item (da_shape da)\<rparr>"

text \<open>
  The argument of \<^verbatim>\<open>DaskImage.create\<close> is any Python object; what the assertion
  asks of it is whether it is an instance of a \<^verbatim>\<open>DaskMeta\<close> subclass.
\<close>

datatype pyobj = DaskMetaInstance daskmeta | OtherObject

record darray =
  dask :: graph
  name :: string
  chunks :: "int list"
  dtype :: string
  shape :: "int list"

text \<open>
  A \<^verbatim>\<open>DaskImage\<close> is a dask array with the entry \<^verbatim>\<open>"__daskmeta__"\<close> of its instance
  dictionary: absent, or a property object whose getter returns the attached metadata.
\<close>

record daskimage = darray +
  daskmeta_attr :: "daskmeta option"

text \<open>
  The class \<^verbatim>\<open>DaskImage\<close> itself has a property of the same name (lines 79 to 82),
  whose getter has the body \<^verbatim>\<open>pass\<close>. A property is a data descriptor, and the
  attribute access \<^verbatim>\<open>img.__daskmeta__\<close> finds the descriptor of the class before the
  dictionary of the instance: it calls this getter and gets \<^verbatim>\<open>None\<close>, whatever the
  dictionary holds.
\<close>

definition daskmeta_getter :: "'a daskimage_scheme \<Rightarrow> daskmeta option" where
  "daskmeta_getter self = None"

text \<open>
  \<^verbatim>\<open>DaskMeta.infect\<close>. Its first assertion, that the target is a dask array, holds
  by the type of \<open>target\<close>.
\<close>

definition infect :: "daskmeta \<Rightarrow> daskimage \<Rightarrow> error + daskimage" where
  "infect self target =
     (if length (shape target) \<in> {2, 3}
      then Inr (target\<lparr>daskmeta_attr := Some self\<rparr>)
      else Inl (AssertionError (Msg ''target must be a dask array with 2 or 3 dimensions'')))"

text \<open>
  Modelled from the spec: \<^verbatim>\<open>da.Array.__new__\<close> belongs to the dask library and is not
  in \<^verbatim>\<open>src/\<close>. The spec: it "constructs a deferred chunked array of the declared
  shape/dtype/chunking, bound to the declared graph"; then the array plugins that
  \<^verbatim>\<open>dask.set_options\<close> registered run on the new array, each replacing it by its
  result. The library's own checks of its arguments are not part of the model.
\<close>

fun run_plugins :: "(daskimage \<Rightarrow> error + daskimage) list \<Rightarrow> daskimage \<Rightarrow> error + daskimage" where
  "run_plugins [] self = Inr self"
| "run_plugins (plugin # plugins) self =
     (case plugin self of Inl e \<Rightarrow> Inl e | Inr result \<Rightarrow> run_plugins plugins result)"

definition array_new ::
  "(daskimage \<Rightarrow> error + daskimage) list \<Rightarrow> graph \<Rightarrow> string \<Rightarrow> int list \<Rightarrow> string \<Rightarrow> int list
     \<Rightarrow> error + daskimage" where
  "array_new array_plugins dsk nm chks dt shp =
     run_plugins array_plugins
       \<lparr>dask = dsk, name = nm, chunks = chks, dtype = dt, shape = shp, daskmeta_attr = None\<rparr>"

text \<open>
  \<^verbatim>\<open>DaskImage.create\<close>. After the assertion, the five properties are read in the
  order of the arguments of line 123; the first that raises ends the call.
\<close>

definition create :: "pyobj \<Rightarrow> error + daskimage" where
  "create dm =
     (case dm of
        OtherObject \<Rightarrow>
          Inl (AssertionError (Msg ''argument must be an instance of a DaskMeta subclass''))
      | DaskMetaInstance m \<Rightarrow>
          (case dm_dask m of
             Inl e \<Rightarrow> Inl e
           | Inr dsk \<Rightarrow>
               (case dm_name m of
                  Inl e \<Rightarrow> Inl e
                | Inr nm \<Rightarrow>
                    (case dm_chunks m of
                       Inl e \<Rightarrow> Inl e
                     | Inr chks \<Rightarrow>
                         (case dm_dtype m of
                            Inl e \<Rightarrow> Inl e
                          | Inr dt \<Rightarrow>
                              (case dm_shape m of
                                 Inl e \<Rightarrow> Inl e
                               | Inr shp \<Rightarrow> array_new [infect m] dsk nm chks dt shp))))))"

subsection \<open>Slicing a deferred array\<close>

text \<open>
  \<^verbatim>\<open>self[:, r0:r1, c0:c1]\<close> is the indexing of the dask library, with Python's slice
  rule on an axis of length \<open>n\<close>: a negative bound counts from the end, and both
  bounds are clamped to \<open>0..n\<close>. The library takes an integer-valued float as an index
  and raises IndexError on any other; three indices on an array of fewer than three
  axes raise IndexError. The library also rewrites graph, name and chunk layout of the
  result; the program reads none of them back, and the model leaves them as they were.
\<close>

definition slice_bound :: "int \<Rightarrow> int \<Rightarrow> int" where
  "slice_bound n i = (if i < 0 then max (i + n) 0 else min i n)"

definition slice_len :: "int \<Rightarrow> int \<Rightarrow> int \<Rightarrow> int" where
  "slice_len n start stop = max 0 (slice_bound n stop - slice_bound n start)"

definition is_integral :: "rat \<Rightarrow> bool" where
  "is_integral q \<longleftrightarrow> of_int \<lfloor>q\<rfloor> = q"

definition getitem_window :: "darray \<Rightarrow> rat \<Rightarrow> rat \<Rightarrow> rat \<Rightarrow> rat \<Rightarrow> error + darray" where
  "getitem_window arr r0 r1 c0 c1 =
     (case shape arr of
        nb # nr # nc # rest \<Rightarrow>
          if is_integral r0 \<and> is_integral r1 \<and> is_integral c0 \<and> is_integral c1
          then Inr (arr\<lparr>shape := nb # slice_len nr \<lfloor>r0\<rfloor> \<lfloor>r1\<rfloor> # slice_len nc \<lfloor>c0\<rfloor> \<lfloor>c1\<rfloor> # rest\<rparr>)
          else Inl IndexError
      | _ \<Rightarrow> Inl IndexError)"

subsection \<open>Random windows\<close>

text \<open>
  \<^verbatim>\<open>random.randrange(start, stop)\<close> raises ValueError on an empty range and otherwise
  returns \<open>start\<close> plus a number below the width; the number drawn is an argument of
  the model. \<open>randwindow\<close> takes the two draws of its two calls.
\<close>

definition randrange :: "int \<Rightarrow> int \<Rightarrow> nat \<Rightarrow> error + int" where
  "randrange start stop u =
     (if start < stop then Inr (start + int u mod (stop - start)) else Inl ValueError)"

definition randwindow :: "'a darray_scheme \<Rightarrow> int \<times> int \<Rightarrow> nat \<times> nat \<Rightarrow> error + darray" where
  "randwindow self window_shape draws =
     (case shape self of
        nb # nr # axes \<Rightarrow>
          (case randrange (fst window_shape) nr (fst draws) of
             Inl e \<Rightarrow> Inl e
           | Inr row \<Rightarrow>
               (case axes of
                  nc # rest \<Rightarrow>
                    (case randrange (snd window_shape) nc (snd draws) of
                       Inl e \<Rightarrow> Inl e
                     | Inr col \<Rightarrow>
                         getitem_window (darray.truncate self)
                           (of_int (row - fst window_shape)) (of_int row)
                           (of_int (col - fst window_shape)) (of_int col))
                | [] \<Rightarrow> Inl IndexError))
      | _ \<Rightarrow> Inl IndexError)"

subsection \<open>Geo-referenced images\<close>

text \<open>
  A \<^verbatim>\<open>GeoImage\<close> carries \<^verbatim>\<open>__geo_interface__\<close>, the GeoJSON mapping of a geometry
  (modelled by the geometry: \<^verbatim>\<open>shape(mapping(g))\<close> is \<open>g\<close>), and
  \<^verbatim>\<open>__geo_transform__\<close>.
\<close>

record geoimage = daskimage +
  geo_interface :: geometry
  geo_transform :: gtransform

definition bounds :: "'a geoimage_scheme \<Rightarrow> rat list" where
  "bounds self = bounds_of (geo_interface self)"

definition proj :: "'a geoimage_scheme \<Rightarrow> string option" where
  "proj self = proj_of (geo_transform self)"

text \<open>
  \<^verbatim>\<open>xs[2:0:-1]\<close>: from index 2 (or the last index, if that is smaller) down to index
  1; for a shape \<^verbatim>\<open>(bands, rows, cols)\<close> it is \<^verbatim>\<open>(cols, rows)\<close>.
\<close>

definition slice_2_0_neg :: "'a list \<Rightarrow> 'a list" where
  "slice_2_0_neg xs = rev (take 2 (drop 1 xs))"

definition image_contains :: "'a geoimage_scheme \<Rightarrow> geometry \<Rightarrow> error + bool" where
  "image_contains self g =
     (case ops_transform (rev_point (geo_transform self)) g of
        Inl e \<Rightarrow> Inl e
      | Inr geometry \<Rightarrow>
          (case box_star (0 # 0 # map of_int (slice_2_0_neg (shape self))) of
             Inl e \<Rightarrow> Inl e
           | Inr img_bounds \<Rightarrow> Inr (contains img_bounds geometry)))"

text \<open>
  \<^verbatim>\<open>GeoImage.__getitem__\<close>. The new instance comes from \<^verbatim>\<open>da.Array.__new__\<close> with no
  array plugin registered, so it has no attached metadata.
\<close>

definition getitem :: "'a geoimage_scheme \<Rightarrow> geometry \<Rightarrow> error + geoimage" where
  "getitem self g =
     (case image_contains self g of
        Inl e \<Rightarrow> Inl e
      | Inr False \<Rightarrow>
          Inl (AssertionError
                 (MsgFmt ''Image does not contain specified geometry {} not in {}''
                    (bounds_of g) (bounds self)))
      | Inr True \<Rightarrow>
          (case ops_transform (rev_point (geo_transform self)) g of
             Inl e \<Rightarrow> Inl e
           | Inr pg \<Rightarrow>
               (case bounds_of pg of
                  [b0, b1, b2, b3] \<Rightarrow>
                    (case getitem_window (darray.truncate self) b1 b3 b0 b2 of
                       Inl e \<Rightarrow> Inl e
                     | Inr result \<Rightarrow>
                         Inr \<lparr>dask = dask result, name = name result, chunks = chunks result,
                              dtype = dtype result, shape = shape result,
                              daskmeta_attr = None,
                              geo_interface = g,
                              geo_transform = transform_add (geo_transform self) (b0, b1)\<rparr>)
                | _ \<Rightarrow> Inl IndexError)))"

text \<open>
  One bounding box lies within another: both of its corners do.
\<close>

definition bounds_within :: "rat list \<Rightarrow> rat list \<Rightarrow> bool" where
  "bounds_within inner outer =
     (case inner of
        [minx, miny, maxx, maxy] \<Rightarrow> in_bounds outer (minx, miny) \<and> in_bounds outer (maxx, maxy)
      | _ \<Rightarrow> False)"

subsection \<open>Areas of interest\<close>

text \<open>
  The keyword arguments that \<^verbatim>\<open>aoi\<close> and \<^verbatim>\<open>_parse_geoms\<close> read; \<open>None\<close> is a keyword
  that is absent or given as \<^verbatim>\<open>None\<close>. The parsers of shapely (\<^verbatim>\<open>wkt.loads\<close>,
  \<^verbatim>\<open>shape\<close>) and the coordinate transformation of pyproj are arguments of the model:
  each may raise.
\<close>

record 'j kwargs =
  bbox :: "rat list option"
  wkt :: "string option"
  geojson :: "'j option"
  from_proj :: "string option"

record 'j library =
  wkt_loads :: "string \<Rightarrow> error + geometry"
  shape_of :: "'j \<Rightarrow> error + geometry"
  pyproj_transform :: "string \<Rightarrow> string \<Rightarrow> error + (point \<Rightarrow> error + point)"

definition default_proj :: string where
  "default_proj = ''EPSG:4326''"

definition reproject ::
  "'j library \<Rightarrow> 'a geoimage_scheme \<Rightarrow> geometry \<Rightarrow> string option \<Rightarrow> string option
     \<Rightarrow> error + geometry" where
  "reproject lib self geometry from_p to_p =
     (let from_p' = (case from_p of None \<Rightarrow> default_proj | Some p \<Rightarrow> p);
          to_p' = (case to_p of
                     None \<Rightarrow> (case proj self of Some p \<Rightarrow> p | None \<Rightarrow> ''EPSG:4326'')
                   | Some p \<Rightarrow> p)
      in case pyproj_transform lib from_p' to_p' of
           Inl e \<Rightarrow> Inl e
         | Inr tfm \<Rightarrow> ops_transform tfm geometry)"

definition parse_geoms ::
  "'j library \<Rightarrow> 'a geoimage_scheme \<Rightarrow> 'j kwargs \<Rightarrow> error + geometry option" where
  "parse_geoms lib self kw =
     (case (case bbox kw of
              Some b \<Rightarrow> map_sum id Some (box_star b)
            | None \<Rightarrow>
                (case wkt kw of
                   Some wkt_geom \<Rightarrow> map_sum id Some (wkt_loads lib wkt_geom)
                 | None \<Rightarrow>
                     (case geojson kw of
                        Some j \<Rightarrow> map_sum id Some (shape_of lib j)
                      | None \<Rightarrow> Inr None))) of
        Inl e \<Rightarrow> Inl e
      | Inr None \<Rightarrow> Inr None
      | Inr (Some g) \<Rightarrow>
          (case proj self of
             None \<Rightarrow> Inr (Some g)
           | Some p \<Rightarrow>
               map_sum id Some
                 (reproject lib self g
                    (Some (case from_proj kw of None \<Rightarrow> ''EPSG:4326'' | Some fp \<Rightarrow> fp))
                    None)))"

text \<open>
  \<open>aoi\<close> returns the image itself when no geometry keyword is given.
\<close>

definition aoi :: "'j library \<Rightarrow> geoimage \<Rightarrow> 'j kwargs \<Rightarrow> error + geoimage" where
  "aoi lib self kw =
     (case parse_geoms lib self kw of
        Inl e \<Rightarrow> Inl e
      | Inr None \<Rightarrow> Inr self
      | Inr (Some g) \<Rightarrow> getitem self g)"

subsection \<open>Warping\<close>

text \<open>
  The entry \<^verbatim>\<open>"image"\<close> of the metadata record, with the keys \<^verbatim>\<open>warp\<close> reads.
\<close>

record image_md =
  imageId :: string
  tileXSize :: int
  tileYSize :: int
  numBands :: int
  dataType :: string
  minTileX :: int
  minTileY :: int

text \<open>
  What \<^verbatim>\<open>warp\<close> obtains from collaborators that are not in \<^verbatim>\<open>src/\<close>, as arguments
  of the model: \<^verbatim>\<open>self.ipe.metadata["image"]\<close>; the bounds and the ground sample
  distance \<^verbatim>\<open>ipe.metadata["rpcs"]["gsd"]\<close> of the full image
  \<^verbatim>\<open>self.__class__(imageId, product='1b')\<close>; \<^verbatim>\<open>self.ipe_id\<close>; the table
  \<^verbatim>\<open>IPE_TO_DTYPE\<close>. The first argument of \<open>warp\<close> and of its parts is the arithmetic
  of the floats.
\<close>

record ipe =
  img_md :: image_md
  im_full_bounds :: "rat list"
  im_full_gsd :: rat
  ipe_id :: string
  IPE_TO_DTYPE :: "string \<Rightarrow> string option"

definition px_to_geom :: "arith \<Rightarrow> affine \<Rightarrow> image_md \<Rightarrow> rat \<Rightarrow> rat \<Rightarrow> geometry" where
  "px_to_geom ar gtf md xmin ymin =
     (let xmax = py_int (fadd ar xmin (fconv ar (tileXSize md)));
          ymax = py_int (fadd ar ymin (fconv ar (tileYSize md)));
          p = fl_apply ar gtf (xmin, fconv ar ymax);
          q = fl_apply ar gtf (fconv ar xmax, ymin)
      in box (fst p) (snd p) (fst q) (snd q) True)"

text \<open>
  \<^verbatim>\<open>GeoDaskWrapper.__new__\<close>: wrap the dictionary, create the image, copy the geo
  attributes of \<open>img\<close>.
\<close>

definition GeoDaskWrapper :: "daskdict \<Rightarrow> 'a geoimage_scheme \<Rightarrow> error + geoimage" where
  "GeoDaskWrapper daskmeta img =
     (case create (DaskMetaInstance (DaskMetaWrapper daskmeta)) of
        Inl e \<Rightarrow> Inl e
      | Inr self \<Rightarrow>
          Inr \<lparr>dask = dask self, name = name self, chunks = chunks self, dtype = dtype self,
               shape = shape self, daskmeta_attr = daskmeta_attr self,
               geo_interface = geo_interface img, geo_transform = geo_transform img\<rparr>)"

text \<open>
  The two nested loops of \<^verbatim>\<open>warp\<close> over \<^verbatim>\<open>xrange(y_chunks)\<close> and
  \<^verbatim>\<open>xrange(x_chunks)\<close>, each step one dictionary assignment.
\<close>

definition warp_tasks ::
  "arith \<Rightarrow> string \<Rightarrow> image_md \<Rightarrow> affine \<Rightarrow> point \<Rightarrow> point \<Rightarrow> int \<Rightarrow> int
     \<Rightarrow> rat \<Rightarrow> string option \<Rightarrow> string option \<Rightarrow> rat \<Rightarrow> graph" where
  "warp_tasks ar nm md gtf ll ur x_chunks y_chunks dem rpcs prj gsd =
     fold (\<lambda>y dsk.
        fold (\<lambda>x dsk'.
           (let xmin = fadd ar (fst ll) (fconv ar (int x * tileXSize md));
                ymin = fadd ar (snd ur) (fconv ar (int y * tileYSize md));
                geometry = px_to_geom ar gtf md xmin ymin
            in AList.update (nm, 0, int y - minTileY md, int x - minTileX md)
                 \<lparr>task_geometry = geometry, task_dem = dem, task_rpcs = rpcs,
                  task_proj = prj, task_gsd = gsd\<rparr> dsk'))
          [0..<nat x_chunks] dsk)
       [0..<nat y_chunks] []"

definition warp ::
  "arith \<Rightarrow> ipe \<Rightarrow> 'a geoimage_scheme \<Rightarrow> rat \<Rightarrow> string option \<Rightarrow> string option
     \<Rightarrow> rat option \<Rightarrow> error + geoimage" where
  "warp ar env self dem rpcs prj gsd_kw =
     (let md = img_md env;
          x_size = tileXSize md;
          y_size = tileYSize md;
          gsd = (case gsd_kw of Some v \<Rightarrow> v | None \<Rightarrow> im_full_gsd env)
      in case im_full_bounds env of
           [fb0, fb1, fb2, fb3] \<Rightarrow>
             (let gtf = from_gdal fb0 gsd 0 fb3 0 (fmul ar (fconv ar (- 1)) gsd)
              in case fl_invert ar gtf of
                   Inl e \<Rightarrow> Inl e
                 | Inr igtf \<Rightarrow>
                     (case bounds self of
                        [b0, b1, b2, b3] \<Rightarrow>
                          (let ll = fl_apply ar igtf (b0, b1);
                               ur = fl_apply ar igtf (b2, b3)
                           in if x_size = 0 \<or> y_size = 0 then Inl ZeroDivisionError
                              else
                                (let x_chunks =
                                       py_int (fdiv ar (fsub ar (fst ur) (fst ll))
                                                 (fconv ar x_size)) + 1;
                                     y_chunks =
                                       py_int (fdiv ar (fsub ar (snd ll) (snd ur))
                                                 (fconv ar y_size)) + 1
                                 in case IPE_TO_DTYPE env (dataType md) of
                                      None \<Rightarrow> Inl KeyError
                                    | Some dt \<Rightarrow>
                                        GeoDaskWrapper
                                          \<lparr>da_dask =
                                             Some (warp_tasks ar (''warp-'' @ ipe_id env) md gtf
                                                     ll ur x_chunks y_chunks dem rpcs prj gsd),
                                           da_name = Some (''warp-'' @ ipe_id env),
                                           da_chunks = Some [numBands md, y_size, x_size],
                                           da_dtype = Some dt,
                                           da_shape =
                                             Some [numBands md, y_chunks * y_size,
                                                   x_chunks * x_size]\<rparr>
                                          self))
                      | _ \<Rightarrow> Inl TypeError))
         | _ \<Rightarrow> Inl IndexError)"

subsection \<open>Band arithmetic\<close>

text \<open>
  \<^verbatim>\<open>PlotMixin.ndvi\<close> works on the pixels the image computes to: a list of bands, each
  a list of rows. The element type stands for numpy's float32 with its own \<open>-\<close>,
  \<open>+\<close> and \<open>/\<close>. \<^verbatim>\<open>self[[6, 4], ...]\<close> selects along axis 0 by a list of indices, a
  negative index counting from the end, and raises IndexError out of range.
\<close>

definition ndvi_bands :: "int list" where
  "ndvi_bands = [6, 4]"

definition take_band :: "'b list \<Rightarrow> int \<Rightarrow> error + 'b" where
  "take_band xs i =
     (let n = int (length xs); j = (if i < 0 then n + i else i)
      in if 0 \<le> j \<and> j < n then Inr (xs ! nat j) else Inl IndexError)"

fun select_bands :: "'b list \<Rightarrow> int list \<Rightarrow> error + 'b list" where
  "select_bands xs [] = Inr []"
| "select_bands xs (i # is) =
     (case take_band xs i of
        Inl e \<Rightarrow> Inl e
      | Inr b \<Rightarrow> (case select_bands xs is of Inl e \<Rightarrow> Inl e | Inr bs \<Rightarrow> Inr (b # bs)))"

definition ndvi :: "'a::{plus,minus,inverse} list list list \<Rightarrow> error + 'a list list" where
  "ndvi pixels =
     (case select_bands pixels ndvi_bands of
        Inl e \<Rightarrow> Inl e
      | Inr [d0, d1] \<Rightarrow> Inr (map2 (map2 (\<lambda>a b. (a - b) / (a + b))) d0 d1)
      | Inr _ \<Rightarrow> Inl IndexError)"

section \<open>Properties\<close>

subsection \<open>Creating an image from its metadata\<close>

text \<open>
  C8 (amended). \<open>create\<close> raises an assertion error when its argument is not an
  instance of a \<^verbatim>\<open>DaskMeta\<close> subclass. For an instance whose five properties can be
  read, it succeeds exactly when the declared shape has 2 or 3 axes and raises an
  assertion error otherwise; on success the image has the declared graph, name,
  chunks, dtype and shape, and the instance is recorded in the dictionary of the image
  under \<^verbatim>\<open>"__daskmeta__"\<close>. A property that raises ends \<open>create\<close> with its own error:
  a \<^verbatim>\<open>DaskMetaWrapper\<close> over a dictionary that lacks one of the five keys gives a
  KeyError. Every failure is the first assertion, the assertion on the axes, or the
  error of a property.
\<close>

theorem create_contract:
  "create OtherObject
     = Inl (AssertionError (Msg ''argument must be an instance of a DaskMeta subclass''))
   \<and> (dm_dask m = Inr dsk \<and> dm_name m = Inr nm \<and> dm_chunks m = Inr chks
        \<and> dm_dtype m = Inr dt \<and> dm_shape m = Inr shp \<longrightarrow>
      create (DaskMetaInstance m)
        = (if length shp \<in> {2, 3}
           then Inr \<lparr>dask = dsk, name = nm, chunks = chks, dtype = dt, shape = shp,
                     daskmeta_attr = Some m\<rparr>
           else Inl (AssertionError
                       (Msg ''target must be a dask array with 2 or 3 dimensions''))))
   \<and> (create dm = Inr img \<longrightarrow>
      (\<exists>m'. dm = DaskMetaInstance m' \<and> dm_dask m' = Inr (dask img)
          \<and> dm_name m' = Inr (name img) \<and> dm_chunks m' = Inr (chunks img)
          \<and> dm_dtype m' = Inr (dtype img) \<and> dm_shape m' = Inr (shape img)
          \<and> length (shape img) \<in> {2, 3} \<and> daskmeta_attr img = Some m'))
   \<and> (da_dask da = None \<or> da_name da = None \<or> da_chunks da = None
        \<or> da_dtype da = None \<or> da_shape da = None \<longrightarrow>
      create (DaskMetaInstance (DaskMetaWrapper da)) = Inl KeyError)
   \<and> (create (DaskMetaInstance m) = Inl e \<longrightarrow>
      e = AssertionError (Msg ''target must be a dask array with 2 or 3 dimensions'')
      \<or> dm_dask m = Inl e \<or> dm_name m = Inl e \<or> dm_chunks m = Inl e
      \<or> dm_dtype m = Inl e \<or> dm_shape m = Inl e)"
proof (intro conjI impI)
  show "create OtherObject
     = Inl (AssertionError (Msg ''argument must be an instance of a DaskMeta subclass''))"
    by (simp add: create_def)
next
  assume "dm_dask m = Inr dsk \<and> dm_name m = Inr nm \<and> dm_chunks m = Inr chks
        \<and> dm_dtype m = Inr dt \<and> dm_shape m = Inr shp"
  then show "create (DaskMetaInstance m)
        = (if length shp \<in> {2, 3}
           then Inr \<lparr>dask = dsk, name = nm, chunks = chks, dtype = dt, shape = shp,
                     daskmeta_attr = Some m\<rparr>
           else Inl (AssertionError
                       (Msg ''target must be a dask array with 2 or 3 dimensions'')))"
    by (simp add: create_def array_new_def infect_def)
next
  assume "create dm = Inr img"
  then show "\<exists>m'. dm = DaskMetaInstance m' \<and> dm_dask m' = Inr (dask img)
          \<and> dm_name m' = Inr (name img) \<and> dm_chunks m' = Inr (chunks img)
          \<and> dm_dtype m' = Inr (dtype img) \<and> dm_shape m' = Inr (shape img)
          \<and> length (shape img) \<in> {2, 3} \<and> daskmeta_attr img = Some m'"
    by (cases dm)
      (auto simp: create_def array_new_def infect_def split: sum.splits if_splits)
next
  assume "da_dask da = None \<or> da_name da = None \<or> da_chunks da = None
        \<or> da_dtype da = None \<or> da_shape da = None"
  then show "create (DaskMetaInstance (DaskMetaWrapper da)) = Inl KeyError"
    by (auto simp: create_def DaskMetaWrapper_def dict_item_def split: sum.splits option.splits)
next
  assume "create (DaskMetaInstance m) = Inl e"
  then show "e = AssertionError (Msg ''target must be a dask array with 2 or 3 dimensions'')
      \<or> dm_dask m = Inl e \<or> dm_name m = Inl e \<or> dm_chunks m = Inl e
      \<or> dm_dtype m = Inl e \<or> dm_shape m = Inl e"
    by (auto simp: create_def array_new_def infect_def split: sum.splits if_splits)
qed

theorem create_contract_witness:
  "create (DaskMetaInstance (DaskMetaWrapper
     \<lparr>da_dask = Some [], da_name = Some ''img'', da_chunks = Some [3, 256, 256],
      da_dtype = Some ''uint16'', da_shape = Some [3, 512, 512]\<rparr>))
   = Inr \<lparr>dask = [], name = ''img'', chunks = [3, 256, 256], dtype = ''uint16'',
          shape = [3, 512, 512],
          daskmeta_attr = Some (DaskMetaWrapper
     \<lparr>da_dask = Some [], da_name = Some ''img'', da_chunks = Some [3, 256, 256],
      da_dtype = Some ''uint16'', da_shape = Some [3, 512, 512]\<rparr>)\<rparr>
   \<and> create (DaskMetaInstance (DaskMetaWrapper
     \<lparr>da_dask = Some [], da_name = Some ''img'', da_chunks = Some [3, 256, 256],
      da_dtype = None, da_shape = Some [3, 512, 512]\<rparr>))
   = Inl KeyError"
  using create_contract [where
      m = "DaskMetaWrapper
     \<lparr>da_dask = Some [], da_name = Some ''img'', da_chunks = Some [3, 256, 256],
      da_dtype = Some ''uint16'', da_shape = Some [3, 512, 512]\<rparr>"
      and dsk = "[]" and nm = "''img''" and chks = "[3, 256, 256]" and dt = "''uint16''"
      and shp = "[3, 512, 512]"
      and da = "\<lparr>da_dask = Some [], da_name = Some ''img'', da_chunks = Some [3, 256, 256],
      da_dtype = None, da_shape = Some [3, 512, 512]\<rparr>"]
  by (simp add: DaskMetaWrapper_def dict_item_def)

text \<open>
  C8 as stated fails twice. A \<^verbatim>\<open>DaskMetaWrapper\<close> over a dictionary without the key
  \<^verbatim>\<open>"dtype"\<close> is an instance of a \<^verbatim>\<open>DaskMeta\<close> subclass with a three-axis shape, and
  \<open>create\<close> raises KeyError, which is neither a success nor an assertion error. And
  after a successful \<open>create\<close> the attribute \<^verbatim>\<open>__daskmeta__\<close> of the image is \<^verbatim>\<open>None\<close>,
  not the metadata.
\<close>

theorem create_contract_counterexample:
  "create (DaskMetaInstance (DaskMetaWrapper
     \<lparr>da_dask = Some [], da_name = Some ''img'', da_chunks = Some [3, 256, 256],
      da_dtype = None, da_shape = Some [3, 512, 512]\<rparr>))
   = Inl KeyError
   \<and> map_sum id daskmeta_getter
       (create (DaskMetaInstance (DaskMetaWrapper
     \<lparr>da_dask = Some [], da_name = Some ''img'', da_chunks = Some [3, 256, 256],
      da_dtype = Some ''uint16'', da_shape = Some [3, 512, 512]\<rparr>)))
   = Inr None"
  by (simp add: create_def array_new_def infect_def DaskMetaWrapper_def dict_item_def
      daskmeta_getter_def)

subsection \<open>Evaluation and helper lemmas\<close>

lemmas geo_eval =
  getitem_def image_contains_def rev_point_def affine_invert_def determinant_def
  affine_apply_def box_def contains_def in_bounds_def slice_2_0_neg_def bounds_def
  getitem_window_def is_integral_def slice_len_def slice_bound_def transform_add_def
  affine_mul_def translation_def Let_def darray.truncate_def bounds_within_def

lemma ops_transform_rev_error:
  "ops_transform (rev_point t) g = Inl e \<Longrightarrow> e = TransformNotInvertibleError"
  by (induction g) (auto simp: rev_point_def affine_invert_def split: sum.splits if_splits)

lemma ops_transform_length:
  "ops_transform fn g = Inr pg \<Longrightarrow> length pg = length g"
  by (induction g arbitrary: pg) (auto split: sum.splits)

lemma image_contains_two_axis:
  assumes "length (shape img) = 2"
  shows "image_contains img g = Inl TypeError
       \<or> image_contains img g = Inl TransformNotInvertibleError"
proof -
  from assms obtain r c where s: "shape img = [r, c]"
    by (auto simp: length_Suc_conv numeral_2_eq_2)
  show ?thesis
    using ops_transform_rev_error [of "geo_transform img" g]
    by (auto simp: image_contains_def slice_2_0_neg_def s split: sum.splits)
qed

lemma image_contains_three_axes:
  assumes "shape img = nb # rows # cols # rest"
    and "ops_transform (rev_point (geo_transform img)) g = Inr pg"
  shows "image_contains img g = Inr (contains (box 0 0 (of_int cols) (of_int rows) True) pg)"
  using assms by (simp add: image_contains_def slice_2_0_neg_def)

lemma image_contains_Inr:
  assumes "image_contains img g = Inr b"
  shows "\<exists>nb rows cols rest pg. shape img = nb # rows # cols # rest
           \<and> ops_transform (rev_point (geo_transform img)) g = Inr pg
           \<and> b = contains (box 0 0 (of_int cols) (of_int rows) True) pg"
proof -
  from assms obtain pg where pg: "ops_transform (rev_point (geo_transform img)) g = Inr pg"
    by (auto simp: image_contains_def split: sum.splits)
  from assms pg obtain bx where
    bx: "box_star (0 # 0 # map of_int (slice_2_0_neg (shape img))) = Inr bx"
    by (auto simp: image_contains_def split: sum.splits)
  have "\<exists>nb rows cols rest. shape img = nb # rows # cols # rest"
  proof (cases "shape img")
    case Nil
    with bx show ?thesis by (simp add: slice_2_0_neg_def)
  next
    case outer: (Cons a as)
    show ?thesis
    proof (cases as)
      case Nil
      with bx outer show ?thesis by (simp add: slice_2_0_neg_def)
    next
      case middle: (Cons b bs)
      show ?thesis
      proof (cases bs)
        case Nil
        with bx outer middle show ?thesis by (simp add: slice_2_0_neg_def)
      next
        case (Cons c cs)
        with outer middle show ?thesis by simp
      qed
    qed
  qed
  then obtain nb rows cols rest where s: "shape img = nb # rows # cols # rest" by blast
  with image_contains_three_axes [OF s pg] assms pg show ?thesis by auto
qed

lemma getitem_Inr:
  assumes "getitem img g = Inr img'"
  shows "\<exists>pg b0 b1 b2 b3. ops_transform (rev_point (geo_transform img)) g = Inr pg
          \<and> bounds_of pg = [b0, b1, b2, b3]
          \<and> geo_interface img' = g
          \<and> geo_transform img' = transform_add (geo_transform img) (b0, b1)
          \<and> g \<noteq> []"
proof -
  from assms have c: "image_contains img g = Inr True"
    by (auto simp: getitem_def split: sum.splits bool.splits)
  then obtain pg where pg: "ops_transform (rev_point (geo_transform img)) g = Inr pg"
    by (auto simp: image_contains_def split: sum.splits)
  from c pg have "pg \<noteq> []"
    by (auto simp: image_contains_def contains_def split: sum.splits)
  with ops_transform_length [OF pg] have ne: "g \<noteq> []" by auto
  from assms c pg show ?thesis
    using ne by (auto simp: getitem_def split: sum.splits list.splits)
qed

lemma transform_add_add:
  "transform_add (transform_add t p) q = transform_add t (fst p + fst q, snd p + snd q)"
  by (simp add: transform_add_def affine_mul_def translation_def algebra_simps)

lemma fold_min_ge: "(a::rat) \<le> x \<Longrightarrow> list_all (\<lambda>y. a \<le> y) xs \<Longrightarrow> a \<le> fold min xs x"
  by (induction xs arbitrary: x) auto

lemma fold_max_le: "(x::rat) \<le> a \<Longrightarrow> list_all (\<lambda>y. y \<le> a) xs \<Longrightarrow> fold max xs x \<le> a"
  by (induction xs arbitrary: x) auto

lemma fold_min_le: "fold min xs (x::rat) \<le> x"
proof (induction xs arbitrary: x)
  case Nil
  show ?case by simp
next
  case (Cons y ys)
  have "fold min ys (min y x) \<le> min y x" by (rule Cons.IH)
  then show ?case by simp
qed

lemma fold_max_ge: "(x::rat) \<le> fold max xs x"
proof (induction xs arbitrary: x)
  case Nil
  show ?case by simp
next
  case (Cons y ys)
  have "max y x \<le> fold max ys (max y x)" by (rule Cons.IH)
  then show ?case by simp
qed

lemma bounds_of_within:
  assumes "g \<noteq> []" and "list_all (in_bounds b) g"
  shows "bounds_within (bounds_of g) b"
proof -
  from assms(1) obtain p ps where g: "g = p # ps" by (cases g) auto
  from assms(2) g have ip: "in_bounds b p" by simp
  then obtain minx miny maxx maxy where b: "b = [minx, miny, maxx, maxy]"
    by (auto simp: in_bounds_def split: list.splits)
  from assms(2) g b have
    xs_lo: "list_all (\<lambda>y. minx \<le> y) (map fst ps)" and
    xs_hi: "list_all (\<lambda>y. y \<le> maxx) (map fst ps)" and
    ys_lo: "list_all (\<lambda>y. miny \<le> y) (map snd ps)" and
    ys_hi: "list_all (\<lambda>y. y \<le> maxy) (map snd ps)"
    by (auto simp: in_bounds_def list_all_iff)
  from ip b have p: "minx \<le> fst p" "fst p \<le> maxx" "miny \<le> snd p" "snd p \<le> maxy"
    by (auto simp: in_bounds_def)
  have 1: "minx \<le> fold min (map fst ps) (fst p)"
    using p xs_lo by (intro fold_min_ge)
  have 2: "fold min (map fst ps) (fst p) \<le> maxx"
    using fold_min_le [of "map fst ps" "fst p"] p by linarith
  have 3: "miny \<le> fold min (map snd ps) (snd p)"
    using p ys_lo by (intro fold_min_ge)
  have 4: "fold min (map snd ps) (snd p) \<le> maxy"
    using fold_min_le [of "map snd ps" "snd p"] p by linarith
  have 5: "fold max (map fst ps) (fst p) \<le> maxx"
    using p xs_hi by (intro fold_max_le)
  have 6: "minx \<le> fold max (map fst ps) (fst p)"
    using fold_max_ge [of "fst p" "map fst ps"] p by linarith
  have 7: "fold max (map snd ps) (snd p) \<le> maxy"
    using p ys_hi by (intro fold_max_le)
  have 8: "miny \<le> fold max (map snd ps) (snd p)"
    using fold_max_ge [of "snd p" "map snd ps"] p by linarith
  show ?thesis
    using 1 2 3 4 5 6 7 8 by (simp add: g b bounds_within_def in_bounds_def)
qed

subsection \<open>Indexing by a geometry\<close>

text \<open>
  C4. For an image whose shape starts with bands, rows and columns, and a geometry
  \<open>g\<close> that the reverse transform takes to \<open>pg\<close> in pixel space: when \<open>pg\<close> is not
  contained in the box \<open>(0, 0, cols, rows)\<close> built from the shape, \<open>image[g]\<close> raises
  the containment assertion, whose message carries the bounds of \<open>g\<close> and the bounds
  of the image. Indexing succeeds only when the shape has these three axes and the
  box contains \<open>pg\<close>.
\<close>

theorem getitem_containment:
  "(shape img = nb # rows # cols # rest
      \<and> ops_transform (rev_point (geo_transform img)) g = Inr pg
      \<and> \<not> contains (box 0 0 (of_int cols) (of_int rows) True) pg
     \<longrightarrow> getitem img g =
           Inl (AssertionError
                  (MsgFmt ''Image does not contain specified geometry {} not in {}''
                     (bounds_of g) (bounds img))))
   \<and> (getitem img g = Inr img'
     \<longrightarrow> (\<exists>nb' rows' cols' rest' pg'. shape img = nb' # rows' # cols' # rest'
            \<and> ops_transform (rev_point (geo_transform img)) g = Inr pg'
            \<and> contains (box 0 0 (of_int cols') (of_int rows') True) pg'))"
proof (intro conjI impI)
  assume "shape img = nb # rows # cols # rest
      \<and> ops_transform (rev_point (geo_transform img)) g = Inr pg
      \<and> \<not> contains (box 0 0 (of_int cols) (of_int rows) True) pg"
  then show "getitem img g =
           Inl (AssertionError
                  (MsgFmt ''Image does not contain specified geometry {} not in {}''
                     (bounds_of g) (bounds img)))"
    using image_contains_three_axes [of img nb rows cols rest g pg]
    by (simp add: getitem_def)
next
  assume "getitem img g = Inr img'"
  then have "image_contains img g = Inr True"
    by (auto simp: getitem_def split: sum.splits bool.splits)
  from image_contains_Inr [OF this]
  show "\<exists>nb' rows' cols' rest' pg'. shape img = nb' # rows' # cols' # rest'
            \<and> ops_transform (rev_point (geo_transform img)) g = Inr pg'
            \<and> contains (box 0 0 (of_int cols') (of_int rows') True) pg'"
    by blast
qed

theorem getitem_containment_witness:
  "getitem
     \<lparr>dask = [], name = ''img'', chunks = [3, 256, 256], dtype = ''uint16'',
      shape = [3, 100, 200], daskmeta_attr = None,
      geo_interface = box 0 0 200 100 True,
      geo_transform = \<lparr>affine_of = Affine 1 0 0 0 (- 1) 100, proj_of = None\<rparr>\<rparr>
     (box 10 10 20 300 True)
   = Inl (AssertionError
            (MsgFmt ''Image does not contain specified geometry {} not in {}''
               [10, 10, 20, 300] [0, 0, 200, 100]))
   \<and> contains (box 0 0 200 100 True) [(50, 90), (50, 40), (10, 40), (10, 90)]"
  using getitem_containment [of
     "\<lparr>dask = [], name = ''img'', chunks = [3, 256, 256], dtype = ''uint16'',
      shape = [3, 100, 200], daskmeta_attr = None,
      geo_interface = box 0 0 200 100 True,
      geo_transform = \<lparr>affine_of = Affine 1 0 0 0 (- 1) 100, proj_of = None\<rparr>\<rparr>"
     3 100 200 "[]" "box 10 10 20 300 True" "[(20, 90), (20, - 200), (10, - 200), (10, 90)]"
     "\<lparr>dask = [], name = ''img'', chunks = [3, 256, 256], dtype = ''uint16'',
      shape = [3, 100, 200], daskmeta_attr = None,
      geo_interface = box 0 0 200 100 True,
      geo_transform = \<lparr>affine_of = Affine 1 0 0 0 (- 1) 100, proj_of = None\<rparr>\<rparr>"]
    getitem_containment [of
     "\<lparr>dask = [], name = ''img'', chunks = [3, 256, 256], dtype = ''uint16'',
      shape = [3, 100, 200], daskmeta_attr = None,
      geo_interface = box 0 0 200 100 True,
      geo_transform = \<lparr>affine_of = Affine 1 0 0 0 (- 1) 100, proj_of = None\<rparr>\<rparr>"
     3 100 200 "[]" "box 10 10 50 60 True" "[(50, 90), (50, 40), (10, 40), (10, 90)]"
     "\<lparr>dask = [], name = ''img'', chunks = [3, 256, 256], dtype = ''uint16'',
      shape = [3, 50, 40], daskmeta_attr = None,
      geo_interface = box 10 10 50 60 True,
      geo_transform = \<lparr>affine_of = Affine 1 0 10 0 (- 1) 60, proj_of = None\<rparr>\<rparr>"]
  by (simp add: geo_eval)

text \<open>
  C7. When \<open>image[g]\<close> succeeds, the bounds of the result are the bounds of \<open>g\<close>; so
  for a geometry \<open>g\<close> all of whose coordinates lie in the bounds of the image, the
  bounds of \<open>image[g]\<close> lie within the bounds of the image.
\<close>

theorem getitem_bounds_subset:
  assumes "getitem img g = Inr img'" and "list_all (in_bounds (bounds img)) g"
  shows "bounds img' = bounds_of g \<and> bounds_within (bounds img') (bounds img)"
proof -
  from getitem_Inr [OF assms(1)] have gi: "geo_interface img' = g" and ne: "g \<noteq> []"
    by auto
  have "bounds img' = bounds_of g" by (simp add: bounds_def gi)
  moreover have "bounds_within (bounds_of g) (bounds img)"
    using ne assms(2) by (rule bounds_of_within)
  ultimately show ?thesis by simp
qed

theorem getitem_bounds_subset_witness:
  "bounds_within [10, 10, 50, 60] [0, 0, 200, 100]
   \<and> getitem
     \<lparr>dask = [], name = ''img'', chunks = [3, 256, 256], dtype = ''uint16'',
      shape = [3, 100, 200], daskmeta_attr = None,
      geo_interface = box 0 0 200 100 True,
      geo_transform = \<lparr>affine_of = Affine 1 0 0 0 (- 1) 100, proj_of = None\<rparr>\<rparr>
     (box 10 10 50 60 True)
   = Inr \<lparr>dask = [], name = ''img'', chunks = [3, 256, 256], dtype = ''uint16'',
      shape = [3, 50, 40], daskmeta_attr = None,
      geo_interface = box 10 10 50 60 True,
      geo_transform = \<lparr>affine_of = Affine 1 0 10 0 (- 1) 60, proj_of = None\<rparr>\<rparr>"
  using getitem_bounds_subset [of
     "\<lparr>dask = [], name = ''img'', chunks = [3, 256, 256], dtype = ''uint16'',
      shape = [3, 100, 200], daskmeta_attr = None,
      geo_interface = box 0 0 200 100 True,
      geo_transform = \<lparr>affine_of = Affine 1 0 0 0 (- 1) 100, proj_of = None\<rparr>\<rparr>"
     "box 10 10 50 60 True"
     "\<lparr>dask = [], name = ''img'', chunks = [3, 256, 256], dtype = ''uint16'',
      shape = [3, 50, 40], daskmeta_attr = None,
      geo_interface = box 10 10 50 60 True,
      geo_transform = \<lparr>affine_of = Affine 1 0 10 0 (- 1) 60, proj_of = None\<rparr>\<rparr>"]
  by (simp add: geo_eval)

text \<open>
  C5. The transform of \<open>image[g]\<close> is the transform of the image translated by the
  pixel offset \<open>(bounds[0], bounds[1])\<close> of the window of \<open>g\<close>. Indexing the result a
  second time translates again, by the offset of the second window in the clipped
  image, so the final transform is the original one translated by the sum of the two
  offsets.
\<close>

theorem getitem_translation_composes:
  assumes "getitem img g1 = Inr img1" and "getitem img1 g2 = Inr img2"
  shows "\<exists>pg1 pg2 a b c d a' b' c' d'.
           ops_transform (rev_point (geo_transform img)) g1 = Inr pg1
         \<and> bounds_of pg1 = [a, b, c, d]
         \<and> ops_transform (rev_point (geo_transform img1)) g2 = Inr pg2
         \<and> bounds_of pg2 = [a', b', c', d']
         \<and> geo_transform img1 = transform_add (geo_transform img) (a, b)
         \<and> geo_transform img2 = transform_add (geo_transform img1) (a', b')
         \<and> geo_transform img2 = transform_add (geo_transform img) (a + a', b + b')"
proof -
  from getitem_Inr [OF assms(1)] obtain pg1 a b c d where
    1: "ops_transform (rev_point (geo_transform img)) g1 = Inr pg1"
       "bounds_of pg1 = [a, b, c, d]"
       "geo_transform img1 = transform_add (geo_transform img) (a, b)"
    by blast
  from getitem_Inr [OF assms(2)] obtain pg2 a' b' c' d' where
    2: "ops_transform (rev_point (geo_transform img1)) g2 = Inr pg2"
       "bounds_of pg2 = [a', b', c', d']"
       "geo_transform img2 = transform_add (geo_transform img1) (a', b')"
    by blast
  have "geo_transform img2 = transform_add (geo_transform img) (a + a', b + b')"
    using 1(3) 2(3) transform_add_add [of "geo_transform img" "(a, b)" "(a', b')"] by simp
  with 1 2 show ?thesis by blast
qed

theorem getitem_translation_composes_witness:
  "getitem
     \<lparr>dask = [], name = ''img'', chunks = [3, 256, 256], dtype = ''uint16'',
      shape = [3, 100, 200], daskmeta_attr = None,
      geo_interface = box 0 0 200 100 True,
      geo_transform = \<lparr>affine_of = Affine 1 0 0 0 (- 1) 100, proj_of = None\<rparr>\<rparr>
     (box 10 10 50 60 True)
   = Inr \<lparr>dask = [], name = ''img'', chunks = [3, 256, 256], dtype = ''uint16'',
      shape = [3, 50, 40], daskmeta_attr = None,
      geo_interface = box 10 10 50 60 True,
      geo_transform = \<lparr>affine_of = Affine 1 0 10 0 (- 1) 60, proj_of = None\<rparr>\<rparr>
   \<and> getitem
     \<lparr>dask = [], name = ''img'', chunks = [3, 256, 256], dtype = ''uint16'',
      shape = [3, 50, 40], daskmeta_attr = None,
      geo_interface = box 10 10 50 60 True,
      geo_transform = \<lparr>affine_of = Affine 1 0 10 0 (- 1) 60, proj_of = None\<rparr>\<rparr>
     (box 20 30 40 50 True)
   = Inr \<lparr>dask = [], name = ''img'', chunks = [3, 256, 256], dtype = ''uint16'',
      shape = [3, 20, 20], daskmeta_attr = None,
      geo_interface = box 20 30 40 50 True,
      geo_transform = \<lparr>affine_of = Affine 1 0 20 0 (- 1) 50, proj_of = None\<rparr>\<rparr>
   \<and> \<lparr>affine_of = Affine 1 0 20 0 (- 1) 50, proj_of = None\<rparr>
     = transform_add \<lparr>affine_of = Affine 1 0 0 0 (- 1) 100, proj_of = None\<rparr> (10 + 10, 40 + 10)"
  using getitem_translation_composes [of
     "\<lparr>dask = [], name = ''img'', chunks = [3, 256, 256], dtype = ''uint16'',
      shape = [3, 100, 200], daskmeta_attr = None,
      geo_interface = box 0 0 200 100 True,
      geo_transform = \<lparr>affine_of = Affine 1 0 0 0 (- 1) 100, proj_of = None\<rparr>\<rparr>"
     "box 10 10 50 60 True"
     "\<lparr>dask = [], name = ''img'', chunks = [3, 256, 256], dtype = ''uint16'',
      shape = [3, 50, 40], daskmeta_attr = None,
      geo_interface = box 10 10 50 60 True,
      geo_transform = \<lparr>affine_of = Affine 1 0 10 0 (- 1) 60, proj_of = None\<rparr>\<rparr>"
     "box 20 30 40 50 True"
     "\<lparr>dask = [], name = ''img'', chunks = [3, 256, 256], dtype = ''uint16'',
      shape = [3, 20, 20], daskmeta_attr = None,
      geo_interface = box 20 30 40 50 True,
      geo_transform = \<lparr>affine_of = Affine 1 0 20 0 (- 1) 50, proj_of = None\<rparr>\<rparr>"]
  by (simp add: geo_eval)

text \<open>
  C10. For an image with a two-axis shape \<open>(rows, cols)\<close>, \<^verbatim>\<open>shape[2:0:-1]\<close> is the
  one extent \<open>(cols)\<close> and \<^verbatim>\<open>box(0, 0, cols)\<close> raises a TypeError: the containment test
  returns no answer for any geometry (it raises the TypeError, or before it the error
  of a transform that cannot be inverted), and so do geometry indexing and \<open>aoi\<close> with
  a geometry.
\<close>

theorem two_axis_containment_fails:
  assumes "length (shape img) = 2"
  shows "(image_contains img g = Inl TypeError
          \<or> image_contains img g = Inl TransformNotInvertibleError)
       \<and> (getitem img g = Inl TypeError \<or> getitem img g = Inl TransformNotInvertibleError)
       \<and> (parse_geoms lib img kw = Inr (Some g)
          \<longrightarrow> aoi lib img kw = Inl TypeError
              \<or> aoi lib img kw = Inl TransformNotInvertibleError)"
  using image_contains_two_axis [OF assms, of g]
  by (auto simp: getitem_def aoi_def)

theorem two_axis_containment_fails_witness:
  "image_contains
     \<lparr>dask = [], name = ''img'', chunks = [256, 256], dtype = ''uint16'',
      shape = [100, 200], daskmeta_attr = None,
      geo_interface = box 0 0 200 100 True,
      geo_transform = \<lparr>affine_of = Affine 1 0 0 0 (- 1) 100, proj_of = None\<rparr>\<rparr>
     (box 10 10 50 60 True) = Inl TypeError
   \<and> getitem
     \<lparr>dask = [], name = ''img'', chunks = [256, 256], dtype = ''uint16'',
      shape = [100, 200], daskmeta_attr = None,
      geo_interface = box 0 0 200 100 True,
      geo_transform = \<lparr>affine_of = Affine 1 0 0 0 (- 1) 100, proj_of = None\<rparr>\<rparr>
     (box 10 10 50 60 True) = Inl TypeError
   \<and> aoi
     \<lparr>wkt_loads = \<lambda>s. Inl ValueError, shape_of = \<lambda>j::unit. Inl ValueError,
      pyproj_transform = \<lambda>f t. Inr (\<lambda>p. Inr p)\<rparr>
     \<lparr>dask = [], name = ''img'', chunks = [256, 256], dtype = ''uint16'',
      shape = [100, 200], daskmeta_attr = None,
      geo_interface = box 0 0 200 100 True,
      geo_transform = \<lparr>affine_of = Affine 1 0 0 0 (- 1) 100, proj_of = None\<rparr>\<rparr>
     \<lparr>bbox = Some [10, 10, 50, 60], wkt = None, geojson = None, from_proj = None\<rparr>
     = Inl TypeError"
  using two_axis_containment_fails [of
     "\<lparr>dask = [], name = ''img'', chunks = [256, 256], dtype = ''uint16'',
      shape = [100, 200], daskmeta_attr = None,
      geo_interface = box 0 0 200 100 True,
      geo_transform = \<lparr>affine_of = Affine 1 0 0 0 (- 1) 100, proj_of = None\<rparr>\<rparr>"
     "box 10 10 50 60 True"
     "\<lparr>wkt_loads = \<lambda>s. Inl ValueError, shape_of = \<lambda>j::unit. Inl ValueError,
      pyproj_transform = \<lambda>f t. Inr (\<lambda>p. Inr p)\<rparr>"
     "\<lparr>bbox = Some [10, 10, 50, 60], wkt = None, geojson = None, from_proj = None\<rparr>"]
  by (simp add: geo_eval parse_geoms_def proj_def aoi_def)

subsection \<open>Random windows\<close>

text \<open>
  C3. \<open>randwindow\<close> on a 10 by 10 image with the window shape \<open>(2, 5)\<close>: with the draws
  \<open>row = 2\<close> and \<open>col = 5\<close> the slice of the columns is \<^verbatim>\<open>col - window_shape[0] : col\<close>,
  that is \<open>3:5\<close>, and the window has 2 columns, not 5.
\<close>

theorem randwindow_window_columns:
  "randwindow
     \<lparr>dask = [], name = ''img'', chunks = [1, 10, 10], dtype = ''uint16'',
      shape = [1, 10, 10]\<rparr> (2, 5) (0, 0)
   = Inr \<lparr>dask = [], name = ''img'', chunks = [1, 10, 10], dtype = ''uint16'',
          shape = [1, 2, 2]\<rparr>"
  by (simp add: randwindow_def randrange_def geo_eval)

subsection \<open>Areas of interest\<close>



subsection \<open>The task graph of a warp\<close>

lemma update_fresh: "k \<notin> fst ` set al \<Longrightarrow> AList.update k v al = al @ [(k, v)]"
  by (induction al) auto

lemma fold_update_fresh:
  assumes "distinct (map kf xs)" and "\<forall>x\<in>set xs. kf x \<notin> fst ` set al"
  shows "fold (\<lambda>x d. AList.update (kf x) (vf x) d) xs al = al @ map (\<lambda>x. (kf x, vf x)) xs"
  using assms
proof (induction xs arbitrary: al)
  case Nil
  show ?case by simp
next
  case (Cons x xs)
  have fresh: "kf x \<notin> fst ` set al" using Cons.prems(2) by simp
  have step: "AList.update (kf x) (vf x) al = al @ [(kf x, vf x)]"
    using fresh by (rule update_fresh)
  have d: "distinct (map kf xs)" using Cons.prems(1) by simp
  have nx: "\<forall>y\<in>set xs. kf y \<noteq> kf x"
    using Cons.prems(1) by (metis distinct.simps(2) image_eqI list.simps(9) set_map)
  have f: "\<forall>y\<in>set xs. kf y \<notin> fst ` set (al @ [(kf x, vf x)])"
    using Cons.prems(2) nx by auto
  show ?case
    using Cons.IH [OF d f] step by simp
qed

lemma fold_fold_update_fresh:
  assumes "distinct (concat (map (\<lambda>y. map (kf y) xs) ys))"
    and "\<forall>y\<in>set ys. \<forall>x\<in>set xs. kf y x \<notin> fst ` set al"
  shows "fold (\<lambda>y d. fold (\<lambda>x d'. AList.update (kf y x) (vf y x) d') xs d) ys al
       = al @ concat (map (\<lambda>y. map (\<lambda>x. (kf y x, vf y x)) xs) ys)"
  using assms
proof (induction ys arbitrary: al)
  case Nil
  show ?case by simp
next
  case (Cons y ys)
  have d1: "distinct (map (kf y) xs)" using Cons.prems(1) by simp
  have f1: "\<forall>x\<in>set xs. kf y x \<notin> fst ` set al" using Cons.prems(2) by simp
  have inner: "fold (\<lambda>x d'. AList.update (kf y x) (vf y x) d') xs al
      = al @ map (\<lambda>x. (kf y x, vf y x)) xs"
    using d1 f1 by (rule fold_update_fresh)
  have d2: "distinct (concat (map (\<lambda>y. map (kf y) xs) ys))" using Cons.prems(1) by simp
  have disj: "set (map (kf y) xs) \<inter> set (concat (map (\<lambda>y. map (kf y) xs) ys)) = {}"
    using Cons.prems(1) by simp
  have f2: "\<forall>y'\<in>set ys. \<forall>x\<in>set xs. kf y' x \<notin> fst ` set (al @ map (\<lambda>x. (kf y x, vf y x)) xs)"
  proof (intro ballI)
    fix y' x assume y': "y' \<in> set ys" and x: "x \<in> set xs"
    have "kf y' x \<notin> fst ` set al" using Cons.prems(2) y' x by simp
    moreover have "kf y' x \<notin> set (map (kf y) xs)"
      using disj y' x by auto
    ultimately show "kf y' x \<notin> fst ` set (al @ map (\<lambda>x. (kf y x, vf y x)) xs)"
      by (auto simp: image_iff)
  qed
  show ?case
    using Cons.IH [OF d2 f2] inner by simp
qed

lemma concat_map_product:
  "concat (map (\<lambda>y. map (f y) xs) ys) = map (\<lambda>(y, x). f y x) (List.product ys xs)"
  by (induction ys) (simp_all add: comp_def)

lemma warp_tasks_eq:
  "warp_tasks ar nm md gtf ll ur x_chunks y_chunks dem rpcs prj gsd =
     concat (map (\<lambda>y. map (\<lambda>x.
       ((nm, 0, int y - minTileY md, int x - minTileX md),
        \<lparr>task_geometry =
           px_to_geom ar gtf md (fadd ar (fst ll) (fconv ar (int x * tileXSize md)))
             (fadd ar (snd ur) (fconv ar (int y * tileYSize md))),
         task_dem = dem, task_rpcs = rpcs, task_proj = prj, task_gsd = gsd\<rparr>))
       [0..<nat x_chunks]) [0..<nat y_chunks])"
proof -
  let ?kf = "\<lambda>y x. (nm, 0::int, int y - minTileY md, int x - minTileX md)"
  have "distinct (map (\<lambda>(y, x). ?kf y x) (List.product [0..<nat y_chunks] [0..<nat x_chunks]))"
    by (auto simp: distinct_map distinct_product inj_on_def)
  then have d: "distinct (concat (map (\<lambda>y. map (?kf y) [0..<nat x_chunks]) [0..<nat y_chunks]))"
    by (simp add: concat_map_product)
  show ?thesis
    unfolding warp_tasks_def Let_def
    using fold_fold_update_fresh [where kf = ?kf and al = "[]", OF d]
    by simp
qed

lemma length_warp_tasks:
  "length (warp_tasks ar nm md gtf ll ur x_chunks y_chunks dem rpcs prj gsd)
     = nat x_chunks * nat y_chunks"
  by (simp add: warp_tasks_eq concat_map_product)

lemma keys_warp_tasks:
  "map fst (warp_tasks ar nm md gtf ll ur x_chunks y_chunks dem rpcs prj gsd)
     = concat (map (\<lambda>y. map (\<lambda>x. (nm, 0, int y - minTileY md, int x - minTileX md))
         [0..<nat x_chunks]) [0..<nat y_chunks])"
  by (simp add: warp_tasks_eq map_concat comp_def)

lemma create_three_axes:
  "create (DaskMetaInstance (DaskMetaWrapper
      \<lparr>da_dask = Some d, da_name = Some n, da_chunks = Some c, da_dtype = Some t,
       da_shape = Some [s0, s1, s2]\<rparr>))
   = Inr \<lparr>dask = d, name = n, chunks = c, dtype = t, shape = [s0, s1, s2],
          daskmeta_attr = Some (DaskMetaWrapper
            \<lparr>da_dask = Some d, da_name = Some n, da_chunks = Some c, da_dtype = Some t,
             da_shape = Some [s0, s1, s2]\<rparr>)\<rparr>"
  by (simp add: create_def array_new_def infect_def DaskMetaWrapper_def dict_item_def)

lemma warp_Inr:
  assumes fb: "im_full_bounds env = [fb0, fb1, fb2, fb3]"
    and b: "bounds self = [b0, b1, b2, b3]"
    and inv: "fl_invert ar (from_gdal fb0 gsd 0 fb3 0 (fmul ar (fconv ar (- 1)) gsd)) = Inr igtf"
    and gsd: "gsd = (case gsd_kw of Some v \<Rightarrow> v | None \<Rightarrow> im_full_gsd env)"
    and tx: "tileXSize (img_md env) \<noteq> 0" and ty: "tileYSize (img_md env) \<noteq> 0"
    and dt: "IPE_TO_DTYPE env (dataType (img_md env)) = Some dt"
  shows "\<exists>img'. warp ar env self dem rpcs prj gsd_kw = Inr img'
     \<and> dask img' =
         warp_tasks ar (''warp-'' @ ipe_id env) (img_md env)
           (from_gdal fb0 gsd 0 fb3 0 (fmul ar (fconv ar (- 1)) gsd))
           (fl_apply ar igtf (b0, b1)) (fl_apply ar igtf (b2, b3))
           (py_int (fdiv ar (fsub ar (fst (fl_apply ar igtf (b2, b3)))
                                     (fst (fl_apply ar igtf (b0, b1))))
                      (fconv ar (tileXSize (img_md env)))) + 1)
           (py_int (fdiv ar (fsub ar (snd (fl_apply ar igtf (b0, b1)))
                                     (snd (fl_apply ar igtf (b2, b3))))
                      (fconv ar (tileYSize (img_md env)))) + 1)
           dem rpcs prj gsd"
  using inv tx ty
  unfolding warp_def Let_def fb b gsd [symmetric] dt GeoDaskWrapper_def create_three_axes
  by simp

lemma py_int_succ_ceiling:
  assumes "0 \<le> q" and "\<not> is_integral q"
  shows "py_int q + 1 = \<lceil>q\<rceil>"
  using assms by (auto simp: py_int_def is_integral_def ceiling_altdef)

lemma py_int_succ_nat:
  assumes "0 \<le> q"
  shows "nat (py_int q + 1) = Suc (nat \<lfloor>q\<rfloor>)"
  using assms by (simp add: py_int_def nat_add_distrib)

lemma ceiling_nat_le:
  assumes "0 \<le> (q :: rat)"
  shows "nat \<lceil>q\<rceil> \<le> Suc (nat \<lfloor>q\<rfloor>)"
proof -
  have "\<lceil>q\<rceil> \<le> \<lfloor>q\<rfloor> + 1" by (simp add: ceiling_altdef)
  moreover have "0 \<le> \<lfloor>q\<rfloor>" using assms by simp
  ultimately show ?thesis by linarith
qed

lemma ceiling_nat_integral:
  assumes "0 \<le> q" and "is_integral q"
  shows "nat \<lceil>q\<rceil> = nat \<lfloor>q\<rfloor>"
  using assms by (auto simp: is_integral_def ceiling_altdef)

lemma succ_count_exceeds:
  assumes "0 \<le> qx" and "0 \<le> qy" and "is_integral qx \<or> is_integral qy"
  shows "nat \<lceil>qx\<rceil> * nat \<lceil>qy\<rceil> < nat (py_int qx + 1) * nat (py_int qy + 1)"
proof -
  let ?a = "nat \<lfloor>qx\<rfloor>" and ?b = "nat \<lfloor>qy\<rfloor>"
  have r: "nat (py_int qx + 1) * nat (py_int qy + 1) = Suc ?a * Suc ?b"
    using assms(1,2) by (simp only: py_int_succ_nat)
  from assms(3) show ?thesis
  proof
    assume "is_integral qx"
    then have "nat \<lceil>qx\<rceil> = ?a" using assms(1) by (rule ceiling_nat_integral [rotated])
    moreover have "nat \<lceil>qy\<rceil> \<le> Suc ?b" using assms(2) by (rule ceiling_nat_le)
    ultimately have "nat \<lceil>qx\<rceil> * nat \<lceil>qy\<rceil> \<le> ?a * Suc ?b"
      by (simp only: mult_le_mono2)
    also have "\<dots> < Suc ?a * Suc ?b" by simp
    finally show ?thesis unfolding r .
  next
    assume "is_integral qy"
    then have "nat \<lceil>qy\<rceil> = ?b" using assms(2) by (rule ceiling_nat_integral [rotated])
    moreover have "nat \<lceil>qx\<rceil> \<le> Suc ?a" using assms(1) by (rule ceiling_nat_le)
    ultimately have "nat \<lceil>qx\<rceil> * nat \<lceil>qy\<rceil> \<le> Suc ?a * ?b"
      by (simp only: mult_le_mono1)
    also have "\<dots> < Suc ?a * Suc ?b" by simp
    finally show ?thesis unfolding r .
  qed
qed

lemma floor_rat_numeral:
  "\<lfloor>(numeral a :: rat) / numeral b\<rfloor> = numeral a div numeral b"
  using floor_divide_of_int_eq [of "numeral a" "numeral b", where ?'a = rat] by simp

lemma ceiling_rat_numeral:
  "\<lceil>(numeral a :: rat) / numeral b\<rceil> = - (- numeral a div numeral b)"
  using floor_divide_of_int_eq [of "- numeral a" "numeral b", where ?'a = rat]
  by (simp add: ceiling_def)

lemmas warp_eval =
  warp_def GeoDaskWrapper_def create_def array_new_def infect_def DaskMetaWrapper_def
  dict_item_def bounds_def box_def from_gdal_def fl_invert_def fl_determinant_def
  fl_apply_def exact_def py_int_def Let_def floor_rat_numeral ceiling_rat_numeral

text \<open>
  C1 (amended). When \<open>warp\<close> has its inputs (four bounds on both images, an invertible
  transform, non-zero tile sizes, a known data type) it returns an image whose graph
  has \<open>max(0, int(qx) + 1) * max(0, int(qy) + 1)\<close> tasks. Here \<open>W = ur[0] - ll[0]\<close> and
  \<open>H = ll[1] - ur[1]\<close> are the extents of the image's bounds in pixels of the transform
  anchored at the full image with pixel size \<open>gsd\<close>, and \<open>qx = W / tw\<close>, \<open>qy = H / th\<close>
  the quotients by the tile sizes, all as the code computes them in floating point,
  whatever the rounding does. One is added to each truncated quotient whether or not
  there is a remainder, and a count below one gives no tile. For computed quotients
  that are not negative, the number of tasks is \<open>ceil(qx) * ceil(qy)\<close> when neither is
  a whole number, and greater than that when one of them is.
\<close>

theorem warp_tile_count:
  assumes "im_full_bounds env = [fb0, fb1, fb2, fb3]"
    and "bounds self = [b0, b1, b2, b3]"
    and "gsd = (case gsd_kw of Some v \<Rightarrow> v | None \<Rightarrow> im_full_gsd env)"
    and "fl_invert ar (from_gdal fb0 gsd 0 fb3 0 (fmul ar (fconv ar (- 1)) gsd)) = Inr igtf"
    and "tw = tileXSize (img_md env)" and "tw \<noteq> 0"
    and "th = tileYSize (img_md env)" and "th \<noteq> 0"
    and "IPE_TO_DTYPE env (dataType (img_md env)) = Some dt"
    and "W = fsub ar (fst (fl_apply ar igtf (b2, b3))) (fst (fl_apply ar igtf (b0, b1)))"
    and "H = fsub ar (snd (fl_apply ar igtf (b0, b1))) (snd (fl_apply ar igtf (b2, b3)))"
    and "qx = fdiv ar W (fconv ar tw)"
    and "qy = fdiv ar H (fconv ar th)"
  shows "\<exists>img'. warp ar env self dem rpcs prj gsd_kw = Inr img'
     \<and> length (dask img') = nat (py_int qx + 1) * nat (py_int qy + 1)
     \<and> (0 \<le> qx \<and> \<not> is_integral qx \<and> 0 \<le> qy \<and> \<not> is_integral qy
        \<longrightarrow> length (dask img') = nat \<lceil>qx\<rceil> * nat \<lceil>qy\<rceil>)
     \<and> (0 \<le> qx \<and> 0 \<le> qy \<and> (is_integral qx \<or> is_integral qy)
        \<longrightarrow> nat \<lceil>qx\<rceil> * nat \<lceil>qy\<rceil> < length (dask img'))"
proof -
  from warp_Inr [OF assms(1,2,4,3) assms(6) [unfolded assms(5)] assms(8) [unfolded assms(7)]
      assms(9), of dem rpcs prj]
  obtain img' where w: "warp ar env self dem rpcs prj gsd_kw = Inr img'"
    and d: "length (dask img') = nat (py_int qx + 1) * nat (py_int qy + 1)"
    unfolding assms(5,7,10,11,12,13) by (auto simp: length_warp_tasks)
  have c: "0 \<le> qx \<and> \<not> is_integral qx \<and> 0 \<le> qy \<and> \<not> is_integral qy
        \<longrightarrow> length (dask img') = nat \<lceil>qx\<rceil> * nat \<lceil>qy\<rceil>"
    using d by (auto simp: py_int_succ_ceiling)
  have e: "0 \<le> qx \<and> 0 \<le> qy \<and> (is_integral qx \<or> is_integral qy)
        \<longrightarrow> nat \<lceil>qx\<rceil> * nat \<lceil>qy\<rceil> < length (dask img')"
    unfolding d by (auto intro: succ_count_exceeds)
  from w d c e show ?thesis by blast
qed

theorem warp_tile_count_witness:
  "map_sum id (length \<circ> dask)
     (warp exact
        \<lparr>img_md = \<lparr>imageId = ''abc'', tileXSize = 256, tileYSize = 256, numBands = 3,
        dataType = ''UNSIGNED_SHORT'', minTileX = 0, minTileY = 0\<rparr>,
      im_full_bounds = [0, 0, 512, 512], im_full_gsd = 1, ipe_id = ''abc'',
      IPE_TO_DTYPE = [''UNSIGNED_SHORT'' \<mapsto> ''ushort'']\<rparr>
        \<lparr>dask = [], name = ''img'', chunks = [3, 256, 256], dtype = ''ushort'',
      shape = [3, 512, 512], daskmeta_attr = None,
      geo_interface = box 0 0 300 300 True,
      geo_transform = \<lparr>affine_of = Affine 1 0 0 0 (- 1) 512, proj_of = None\<rparr>\<rparr>
        0 None None None)
   = Inr 4
   \<and> nat \<lceil>(300 :: rat) / 256\<rceil> * nat \<lceil>(300 :: rat) / 256\<rceil> = 4
   \<and> map_sum id (length \<circ> dask)
     (warp exact
        \<lparr>img_md = \<lparr>imageId = ''abc'', tileXSize = 256, tileYSize = 256, numBands = 3,
        dataType = ''UNSIGNED_SHORT'', minTileX = 0, minTileY = 0\<rparr>,
      im_full_bounds = [0, 0, 512, 512], im_full_gsd = 1, ipe_id = ''abc'',
      IPE_TO_DTYPE = [''UNSIGNED_SHORT'' \<mapsto> ''ushort'']\<rparr>
        \<lparr>dask = [], name = ''img'', chunks = [3, 256, 256], dtype = ''ushort'',
      shape = [3, 512, 512], daskmeta_attr = None,
      geo_interface = box 0 0 600 600 True,
      geo_transform = \<lparr>affine_of = Affine 1 0 0 0 (- 1) 512, proj_of = None\<rparr>\<rparr>
        0 None None (Some (- 1)))
   = Inr 0"
proof -
  have "\<exists>img'. warp exact
        \<lparr>img_md = \<lparr>imageId = ''abc'', tileXSize = 256, tileYSize = 256, numBands = 3,
        dataType = ''UNSIGNED_SHORT'', minTileX = 0, minTileY = 0\<rparr>,
      im_full_bounds = [0, 0, 512, 512], im_full_gsd = 1, ipe_id = ''abc'',
      IPE_TO_DTYPE = [''UNSIGNED_SHORT'' \<mapsto> ''ushort'']\<rparr>
        \<lparr>dask = [], name = ''img'', chunks = [3, 256, 256], dtype = ''ushort'',
      shape = [3, 512, 512], daskmeta_attr = None,
      geo_interface = box 0 0 300 300 True,
      geo_transform = \<lparr>affine_of = Affine 1 0 0 0 (- 1) 512, proj_of = None\<rparr>\<rparr>
        0 None None None = Inr img'
     \<and> length (dask img') = nat (py_int (300 / 256) + 1) * nat (py_int (300 / 256) + 1)
     \<and> (0 \<le> (300 / 256 :: rat) \<and> \<not> is_integral (300 / 256)
          \<and> 0 \<le> (300 / 256 :: rat) \<and> \<not> is_integral (300 / 256)
        \<longrightarrow> length (dask img') = nat \<lceil>(300 :: rat) / 256\<rceil> * nat \<lceil>(300 :: rat) / 256\<rceil>)
     \<and> (0 \<le> (300 / 256 :: rat) \<and> 0 \<le> (300 / 256 :: rat)
          \<and> (is_integral (300 / 256) \<or> is_integral (300 / 256))
        \<longrightarrow> nat \<lceil>(300 :: rat) / 256\<rceil> * nat \<lceil>(300 :: rat) / 256\<rceil> < length (dask img'))"
    by (rule warp_tile_count [of _ 0 0 512 512 _ 0 0 300 300 1 _ _
          "Affine 1 0 0 0 (- 1) 512" 256 256 "''ushort''" 300 300])
      (simp_all add: bounds_def box_def fl_invert_def fl_determinant_def fl_apply_def
         from_gdal_def exact_def Let_def)
  then have first: "map_sum id (length \<circ> dask)
     (warp exact
        \<lparr>img_md = \<lparr>imageId = ''abc'', tileXSize = 256, tileYSize = 256, numBands = 3,
        dataType = ''UNSIGNED_SHORT'', minTileX = 0, minTileY = 0\<rparr>,
      im_full_bounds = [0, 0, 512, 512], im_full_gsd = 1, ipe_id = ''abc'',
      IPE_TO_DTYPE = [''UNSIGNED_SHORT'' \<mapsto> ''ushort'']\<rparr>
        \<lparr>dask = [], name = ''img'', chunks = [3, 256, 256], dtype = ''ushort'',
      shape = [3, 512, 512], daskmeta_attr = None,
      geo_interface = box 0 0 300 300 True,
      geo_transform = \<lparr>affine_of = Affine 1 0 0 0 (- 1) 512, proj_of = None\<rparr>\<rparr>
        0 None None None)
   = Inr 4"
    by (auto simp: py_int_def floor_rat_numeral)
  have "\<exists>img'. warp exact
        \<lparr>img_md = \<lparr>imageId = ''abc'', tileXSize = 256, tileYSize = 256, numBands = 3,
        dataType = ''UNSIGNED_SHORT'', minTileX = 0, minTileY = 0\<rparr>,
      im_full_bounds = [0, 0, 512, 512], im_full_gsd = 1, ipe_id = ''abc'',
      IPE_TO_DTYPE = [''UNSIGNED_SHORT'' \<mapsto> ''ushort'']\<rparr>
        \<lparr>dask = [], name = ''img'', chunks = [3, 256, 256], dtype = ''ushort'',
      shape = [3, 512, 512], daskmeta_attr = None,
      geo_interface = box 0 0 600 600 True,
      geo_transform = \<lparr>affine_of = Affine 1 0 0 0 (- 1) 512, proj_of = None\<rparr>\<rparr>
        0 None None (Some (- 1)) = Inr img'
     \<and> length (dask img') = nat (py_int (- 600 / 256) + 1) * nat (py_int (- 600 / 256) + 1)
     \<and> (0 \<le> (- 600 / 256 :: rat) \<and> \<not> is_integral (- 600 / 256)
          \<and> 0 \<le> (- 600 / 256 :: rat) \<and> \<not> is_integral (- 600 / 256)
        \<longrightarrow> length (dask img') = nat \<lceil>(- 600 :: rat) / 256\<rceil> * nat \<lceil>(- 600 :: rat) / 256\<rceil>)
     \<and> (0 \<le> (- 600 / 256 :: rat) \<and> 0 \<le> (- 600 / 256 :: rat)
          \<and> (is_integral (- 600 / 256) \<or> is_integral (- 600 / 256))
        \<longrightarrow> nat \<lceil>(- 600 :: rat) / 256\<rceil> * nat \<lceil>(- 600 :: rat) / 256\<rceil> < length (dask img'))"
    by (rule warp_tile_count [of _ 0 0 512 512 _ 0 0 600 600 "- 1" _ _
          "Affine (- 1) 0 0 0 1 (- 512)" 256 256 "''ushort''" "- 600" "- 600"])
      (simp_all add: bounds_def box_def fl_invert_def fl_determinant_def fl_apply_def
         from_gdal_def exact_def Let_def)
  then have third: "map_sum id (length \<circ> dask)
     (warp exact
        \<lparr>img_md = \<lparr>imageId = ''abc'', tileXSize = 256, tileYSize = 256, numBands = 3,
        dataType = ''UNSIGNED_SHORT'', minTileX = 0, minTileY = 0\<rparr>,
      im_full_bounds = [0, 0, 512, 512], im_full_gsd = 1, ipe_id = ''abc'',
      IPE_TO_DTYPE = [''UNSIGNED_SHORT'' \<mapsto> ''ushort'']\<rparr>
        \<lparr>dask = [], name = ''img'', chunks = [3, 256, 256], dtype = ''ushort'',
      shape = [3, 512, 512], daskmeta_attr = None,
      geo_interface = box 0 0 600 600 True,
      geo_transform = \<lparr>affine_of = Affine 1 0 0 0 (- 1) 512, proj_of = None\<rparr>\<rparr>
        0 None None (Some (- 1)))
   = Inr 0"
    by (auto simp: py_int_def ceiling_def floor_rat_numeral)
  have second: "nat \<lceil>(300 :: rat) / 256\<rceil> * nat \<lceil>(300 :: rat) / 256\<rceil> = 4"
    by (simp add: ceiling_rat_numeral)
  from first second third show ?thesis by blast
qed

text \<open>
  C1 as stated fails where the extent is a whole number of tiles: 512 by 512 pixels
  with 256 by 256 tiles give 3 * 3 = 9 tasks, not 2 * 2 = 4. Every float of this
  computation is a whole number below 1024, so the doubles compute it without
  rounding.
\<close>

theorem warp_tile_count_counterexample:
  "map_sum id (length \<circ> dask)
     (warp exact
        \<lparr>img_md = \<lparr>imageId = ''abc'', tileXSize = 256, tileYSize = 256, numBands = 3,
        dataType = ''UNSIGNED_SHORT'', minTileX = 0, minTileY = 0\<rparr>,
      im_full_bounds = [0, 0, 512, 512], im_full_gsd = 1, ipe_id = ''abc'',
      IPE_TO_DTYPE = [''UNSIGNED_SHORT'' \<mapsto> ''ushort'']\<rparr>
        \<lparr>dask = [], name = ''img'', chunks = [3, 256, 256], dtype = ''ushort'',
      shape = [3, 512, 512], daskmeta_attr = None,
      geo_interface = box 0 0 512 512 True,
      geo_transform = \<lparr>affine_of = Affine 1 0 0 0 (- 1) 512, proj_of = None\<rparr>\<rparr>
        0 None None None)
   = Inr 9
   \<and> nat \<lceil>(512 :: rat) / 256\<rceil> * nat \<lceil>(512 :: rat) / 256\<rceil> = 4"
  by (simp add: warp_eval length_warp_tasks)

text \<open>
  C2. \<open>warp\<close> with \<open>minTileY = 2000\<close> and \<open>minTileX = 1000\<close> on an image of 100 by 100
  pixels: the new image is declared with the shape \<open>(3, 256, 256)\<close> in chunks of
  \<open>(3, 256, 256)\<close>, one block with the indices \<open>(0, 0, 0)\<close>, and the only key of its
  graph is \<open>(name, 0, - 2000, - 1000)\<close>: line 253 subtracts the minimum tile indices
  from loop indices that already start at zero.
\<close>

theorem warp_tile_keys_offset:
  "map_sum id (\<lambda>img'. (shape img', chunks img', map fst (dask img')))
     (warp exact
        \<lparr>img_md = \<lparr>imageId = ''abc'', tileXSize = 256, tileYSize = 256, numBands = 3,
        dataType = ''UNSIGNED_SHORT'', minTileX = 1000, minTileY = 2000\<rparr>,
      im_full_bounds = [0, 0, 512, 512], im_full_gsd = 1, ipe_id = ''abc'',
      IPE_TO_DTYPE = [''UNSIGNED_SHORT'' \<mapsto> ''ushort'']\<rparr>
        \<lparr>dask = [], name = ''img'', chunks = [3, 256, 256], dtype = ''ushort'',
      shape = [3, 512, 512], daskmeta_attr = None,
      geo_interface = box 0 0 100 100 True,
      geo_transform = \<lparr>affine_of = Affine 1 0 0 0 (- 1) 512, proj_of = None\<rparr>\<rparr>
        0 None None None)
   = Inr ([3, 256, 256], [3, 256, 256], [(''warp-abc'', 0, - 2000, - 1000)])"
  by (simp add: warp_eval keys_warp_tasks)

subsection \<open>Band arithmetic\<close>

lemma select_bands_ndvi:
  "6 < length pixels \<Longrightarrow> select_bands pixels ndvi_bands = Inr [pixels ! 6, pixels ! 4]"
  by (simp add: ndvi_bands_def take_band_def)

lemma ndvi_select:
  "6 < length pixels \<Longrightarrow>
     ndvi pixels = Inr (map2 (map2 (\<lambda>a b. (a - b) / (a + b))) (pixels ! 6) (pixels ! 4))"
  by (simp add: ndvi_def select_bands_ndvi)

text \<open>
  C9. \<open>ndvi\<close> selects the bands 6 and 4 along axis 0 (an IndexError when the image has
  fewer than seven bands) and returns, element by element, \<open>(a - b) / (a + b)\<close> for \<open>a\<close>
  in the first selected band and \<open>b\<close> in the second. When the first selected band is
  uniformly 0.8 and the second uniformly 0.2, the result is uniformly 0.6.
\<close>

theorem ndvi_normalized_difference:
  "(6 < length pixels \<longrightarrow>
      ndvi pixels = Inr (map2 (map2 (\<lambda>a b. (a - b) / (a + b))) (pixels ! 6) (pixels ! 4)))
   \<and> (6 < length pixels \<and> i < length (pixels ! 6) \<and> i < length (pixels ! 4)
        \<and> j < length (pixels ! 6 ! i) \<and> j < length (pixels ! 4 ! i) \<longrightarrow>
      (\<exists>res. ndvi pixels = Inr res
         \<and> res ! i ! j =
             (pixels ! 6 ! i ! j - pixels ! 4 ! i ! j) / (pixels ! 6 ! i ! j + pixels ! 4 ! i ! j)))
   \<and> (length pixels \<le> 6 \<longrightarrow> ndvi pixels = Inl IndexError)
   \<and> (6 < length px \<and> px ! 6 = replicate r (replicate c (8 / 10))
        \<and> px ! 4 = replicate r (replicate c (2 / 10)) \<longrightarrow>
      ndvi px = Inr (replicate r (replicate c (6 / 10 :: rat))))"
proof (intro conjI impI)
  assume "6 < length pixels"
  then show "ndvi pixels = Inr (map2 (map2 (\<lambda>a b. (a - b) / (a + b))) (pixels ! 6) (pixels ! 4))"
    by (rule ndvi_select)
next
  assume a: "6 < length pixels \<and> i < length (pixels ! 6) \<and> i < length (pixels ! 4)
        \<and> j < length (pixels ! 6 ! i) \<and> j < length (pixels ! 4 ! i)"
  then have "ndvi pixels = Inr (map2 (map2 (\<lambda>a b. (a - b) / (a + b))) (pixels ! 6) (pixels ! 4))"
    by (simp add: ndvi_select)
  moreover have "map2 (map2 (\<lambda>a b. (a - b) / (a + b))) (pixels ! 6) (pixels ! 4) ! i ! j
      = (pixels ! 6 ! i ! j - pixels ! 4 ! i ! j) / (pixels ! 6 ! i ! j + pixels ! 4 ! i ! j)"
    using a by simp
  ultimately show "\<exists>res. ndvi pixels = Inr res
         \<and> res ! i ! j =
             (pixels ! 6 ! i ! j - pixels ! 4 ! i ! j) / (pixels ! 6 ! i ! j + pixels ! 4 ! i ! j)"
    by simp
next
  assume "length pixels \<le> 6"
  then show "ndvi pixels = Inl IndexError"
    by (simp add: ndvi_def ndvi_bands_def take_band_def)
next
  assume a: "6 < length px \<and> px ! 6 = replicate r (replicate c (8 / 10))
        \<and> px ! 4 = replicate r (replicate c (2 / 10))"
  then have "ndvi px = Inr (map2 (map2 (\<lambda>a b. (a - b) / (a + b))) (px ! 6) (px ! 4))"
    by (simp add: ndvi_select)
  with a show "ndvi px = Inr (replicate r (replicate c (6 / 10 :: rat)))"
    by simp
qed

theorem ndvi_normalized_difference_witness:
  "ndvi [[[0 :: rat]], [[0]], [[0]], [[0]], [[2 / 10, 2 / 10]], [[0]], [[8 / 10, 8 / 10]]]
     = Inr [[6 / 10, 6 / 10]]
   \<and> ndvi [[[8 / 10, 8 / 10 :: rat]], [[2 / 10, 2 / 10]]] = Inl IndexError"
  using ndvi_normalized_difference [where
      pixels = "[[[0 :: rat]], [[0]], [[0]], [[0]], [[2 / 10, 2 / 10]], [[0]], [[8 / 10, 8 / 10]]]"
      and i = 0 and j = 1
      and px = "[[[0 :: rat]], [[0]], [[0]], [[0]], [[2 / 10, 2 / 10]], [[0]], [[8 / 10, 8 / 10]]]"
      and r = 1 and c = 2]
    ndvi_normalized_difference [where pixels = "[[[8 / 10, 8 / 10 :: rat]], [[2 / 10, 2 / 10]]]"]
  by (simp add: numeral_2_eq_2)

end
